theory Spec2Isabelle
  imports Main "HOL-Library.AList"
begin

section \<open>Python values\<close>

text \<open>
  The values a screening form or a screening record holds for a required field:
  \<open>None\<close>, booleans, integers and strings. Python's integers are unbounded, so they
  are \<open>int\<close>. Floats, dates and nested containers are outside this universe.
\<close>

datatype pyval = PNone | PBool bool | PInt int | PStr string

text \<open>Truthiness, as \<open>if value:\<close> and \<open>not value\<close> decide it.\<close>

fun truthy :: "pyval \<Rightarrow> bool" where
  "truthy PNone = False"
| "truthy (PBool b) = b"
| "truthy (PInt i) = (i \<noteq> 0)"
| "truthy (PStr s) = (s \<noteq> [])"

text \<open>\<open>bool\<close> is a subclass of \<open>int\<close>: \<open>True == 1\<close> and \<open>False == 0\<close>.\<close>

fun num_of :: "pyval \<Rightarrow> int option" where
  "num_of (PBool b) = Some (if b then 1 else 0)"
| "num_of (PInt i) = Some i"
| "num_of PNone = None"
| "num_of (PStr s) = None"

text \<open>The operator \<open>==\<close>; \<open>!=\<close> is its negation on these values.\<close>

definition py_eq :: "pyval \<Rightarrow> pyval \<Rightarrow> bool" where
  "py_eq a b =
     (case (num_of a, num_of b) of
        (Some i, Some j) \<Rightarrow> i = j
      | (None, None) \<Rightarrow> a = b
      | _ \<Rightarrow> False)"

text \<open>\<open>v in xs\<close> for a list or a tuple \<open>xs\<close>.\<close>

definition py_in :: "pyval \<Rightarrow> pyval list \<Rightarrow> bool" where
  "py_in v xs = list_ex (py_eq v) xs"

text \<open>
  \<open>v in range(start, stop, step)\<close>: integers and booleans are tested arithmetically,
  every other value compares unequal to each element. Python refuses to build a range
  whose step is zero; such a triple has no members here.
\<close>

definition in_range :: "pyval \<Rightarrow> int \<Rightarrow> int \<Rightarrow> int \<Rightarrow> bool" where
  "in_range v start stop step =
     (case num_of v of
        None \<Rightarrow> False
      | Some x \<Rightarrow>
          if 0 < step then start \<le> x \<and> x < stop \<and> (x - start) mod step = 0
          else if step < 0 then stop < x \<and> x \<le> start \<and> (start - x) mod (- step) = 0
          else False)"

text \<open>\<open>bool(range(start, stop, step))\<close>: a range is truthy when it has an element.\<close>

definition range_nonempty :: "int \<Rightarrow> int \<Rightarrow> int \<Rightarrow> bool" where
  "range_nonempty start stop step =
     ((0 < step \<and> start < stop) \<or> (step < 0 \<and> stop < start))"

subsection \<open>Strings\<close>

text \<open>
  \<open>str.title()\<close> and \<open>str.replace('_', ' ')\<close> on ASCII text: a letter that follows a
  letter is lowercased, a letter that follows anything else is uppercased, and
  every other character is kept and ends the word.
\<close>

definition ascii_lowercase :: string where
  "ascii_lowercase = ''abcdefghijklmnopqrstuvwxyz''"

definition ascii_uppercase :: string where
  "ascii_uppercase = ''ABCDEFGHIJKLMNOPQRSTUVWXYZ''"

definition upper_char :: "char \<Rightarrow> char" where
  "upper_char c =
     (case map_of (zip ascii_lowercase ascii_uppercase) c of Some u \<Rightarrow> u | None \<Rightarrow> c)"

definition lower_char :: "char \<Rightarrow> char" where
  "lower_char c =
     (case map_of (zip ascii_uppercase ascii_lowercase) c of Some l \<Rightarrow> l | None \<Rightarrow> c)"

definition is_cased :: "char \<Rightarrow> bool" where
  "is_cased c = (c \<in> set ascii_lowercase \<or> c \<in> set ascii_uppercase)"

fun title_from :: "bool \<Rightarrow> string \<Rightarrow> string" where
  "title_from prev [] = []"
| "title_from prev (c # cs) =
     (if is_cased c
      then (if prev then lower_char c else upper_char c) # title_from True cs
      else c # title_from False cs)"

definition title :: "string \<Rightarrow> string" where
  "title s = title_from False s"

definition replace_underscore :: "string \<Rightarrow> string" where
  "replace_underscore s = map (\<lambda>c. if c = CHR ''_'' then CHR '' '' else c) s"

text \<open>\<open>sep.join(xs)\<close>.\<close>

fun join :: "string \<Rightarrow> string list \<Rightarrow> string" where
  "join sep [] = []"
| "join sep [x] = x"
| "join sep (x # y # ys) = x @ sep @ join sep (y # ys)"

text \<open>\<open>str(v)\<close>, as an f-string formats a value.\<close>

function digits :: "nat \<Rightarrow> string" where
  "digits n =
     (if n < 10 then [''0123456789'' ! n]
      else digits (n div 10) @ [''0123456789'' ! (n mod 10)])"
  by pat_completeness auto
termination
  by (relation "measure id") auto

declare digits.simps [simp del]

fun py_str :: "pyval \<Rightarrow> string" where
  "py_str PNone = ''None''"
| "py_str (PBool b) = (if b then ''True'' else ''False'')"
| "py_str (PInt i) = (if i < 0 then ''-'' @ digits (nat (- i)) else digits (nat i))"
| "py_str (PStr s) = s"

subsection \<open>Dictionaries\<close>

text \<open>
  A \<open>dict\<close> keeps its keys in insertion order, and the order of the reasons shows in
  the joined text written to the record, so a dictionary is an association list:
  \<open>d.update({k: v})\<close> is \<^const>\<open>AList.update\<close> (replace in place, or append),
  \<open>d.get(k)\<close> is \<^const>\<open>map_of\<close>, \<open>k in d\<close> is \<open>map_of d k \<noteq> None\<close>,
  and \<open>d\<close> is truthy when it is not \<open>[]\<close>.
\<close>

type_synonym ('k, 'v) dict = "('k \<times> 'v) list"

text \<open>\<open>d.update(**other)\<close>: the items of \<open>other\<close>, in order.\<close>

definition dict_update_all :: "('k, 'v) dict \<Rightarrow> ('k, 'v) dict \<Rightarrow> ('k, 'v) dict" where
  "dict_update_all other d = fold (\<lambda>(k, v). AList.update k v) other d"

section \<open>The criterion descriptor \<open>FC\<close>\<close>

text \<open>
  \<open>FC.value\<close> is declared \<open>Optional[Union[str, list, tuple, range]]\<close>; \<open>None\<close> is
  \<^const>\<open>None\<close>. The field is called \<open>fc_value\<close> here.
\<close>

datatype accepted =
    AStr string
  | AList "pyval list"
  | ATuple "pyval list"
  | ARange int int int

record FC =
  fc_value :: "accepted option"
  msg :: "string option"
  ignore_if_missing :: bool
  missing_value :: "string option"

text \<open>\<open>FC()\<close> with its defaults.\<close>

definition FC_default :: FC where
  "FC_default = \<lparr>fc_value = None, msg = None, ignore_if_missing = False, missing_value = None\<rparr>"

text \<open>Truthiness of \<open>fc.value\<close>.\<close>

fun accepted_truthy :: "accepted option \<Rightarrow> bool" where
  "accepted_truthy None = False"
| "accepted_truthy (Some (AStr s)) = (s \<noteq> [])"
| "accepted_truthy (Some (AList xs)) = (xs \<noteq> [])"
| "accepted_truthy (Some (ATuple xs)) = (xs \<noteq> [])"
| "accepted_truthy (Some (ARange start stop step)) = range_nonempty start stop step"

section \<open>Errors\<close>

text \<open>
  The exceptions of the module, and the two built-in ones its statements can raise
  outside a \<open>try\<close>. \<open>ScreeningEligibilityAttributeError\<close> carries the class name and
  the field name its message interpolates; the model and cleaned-data errors carry
  the field name.
\<close>

datatype error =
    ScreeningEligibilityError
  | ScreeningEligibilityAttributeError string string
  | ScreeningEligibilityModelAttributeError string
  | ScreeningEligibilityCleanedDataKeyError string
  | ScreeningEligibilityInvalidCombination
  | AttributeError
  | TypeError

definition bind :: "error + 'a \<Rightarrow> ('a \<Rightarrow> error + 'b) \<Rightarrow> error + 'b" where
  "bind r f = (case r of Inl err \<Rightarrow> Inl err | Inr x \<Rightarrow> f x)"

section \<open>The screening record\<close>

text \<open>
  The persisted record, as the evaluator sees it: its attributes by name, and the
  calls the evaluator makes on it, oldest first.
\<close>

datatype model_call = Setattr string pyval | Save

record model =
  attrs :: "string \<rightharpoonup> pyval"
  calls :: "model_call list"

definition setattr_model :: "string \<Rightarrow> pyval \<Rightarrow> model \<Rightarrow> model" where
  "setattr_model name v m =
     m\<lparr>attrs := (attrs m)(name \<mapsto> v), calls := calls m @ [Setattr name v]\<rparr>"

section \<open>The evaluator\<close>

text \<open>
  The instance state of \<open>ScreeningEligibility\<close>. \<open>missing_data_memo\<close> is the attribute
  \<open>_missing_data\<close>; \<open>fld_attrs\<close> holds the attributes named by the required fields
  (class-level declarations, overwritten by the resolved values); the evaluator's own
  members are the other fields of the record.
\<close>

record evaluator =
  missing_data_memo :: "(string, string) dict"
  verbose :: "bool option"
  cleaned_data :: "(string, pyval) dict option"
  eligible :: string
  eligible_value_default :: string
  eligible_values_list :: "string list"
  is_eligible_value :: string
  is_ineligible_value :: string
  eligible_display_label :: string
  ineligible_display_label :: string
  model_obj :: "model option"
  reasons_ineligible :: "(string, string) dict option"
  fld_attrs :: "string \<rightharpoonup> pyval"

text \<open>
  A subclass: its name, its class attributes, the table \<open>get_required_fields()\<close>
  returns, the attributes it declares for them, and its two hooks. A hook takes the
  evaluator and returns it changed, or raises.
\<close>

record screening_class =
  class_name :: string
  cls_eligible_display_label :: string
  eligible_fld_name :: string
  cls_eligible_value_default :: string
  cls_eligible_values_list :: "string list"
  cls_ineligible_display_label :: string
  cls_is_eligible_value :: string
  cls_is_ineligible_value :: string
  reasons_ineligible_fld_name :: string
  declared_attrs :: "string \<rightharpoonup> pyval"
  get_required_fields :: "(string, FC) dict"
  assess_eligibility :: "evaluator \<Rightarrow> error + evaluator"
  set_fld_attrs_on_model :: "evaluator \<Rightarrow> error + evaluator"

text \<open>The constants \<open>YES\<close>, \<open>NO\<close> and \<open>TBD\<close> of \<open>edc_constants.constants\<close>.\<close>

definition YES :: string where "YES = ''Yes''"
definition NO :: string where "NO = ''No''"
definition TBD :: string where "TBD = ''tbd''"

text \<open>The base class: no required fields, both hooks \<open>pass\<close>.\<close>

definition ScreeningEligibility :: screening_class where
  "ScreeningEligibility =
     \<lparr>class_name = ''ScreeningEligibility'',
      cls_eligible_display_label = ''ELIGIBLE'',
      eligible_fld_name = ''eligible'',
      cls_eligible_value_default = TBD,
      cls_eligible_values_list = [YES, NO, TBD],
      cls_ineligible_display_label = ''INELIGIBLE'',
      cls_is_eligible_value = YES,
      cls_is_ineligible_value = NO,
      reasons_ineligible_fld_name = ''reasons_ineligible'',
      declared_attrs = Map.empty,
      get_required_fields = [],
      assess_eligibility = Inr,
      set_fld_attrs_on_model = Inr\<rparr>"

text \<open>The arguments of \<open>__init__\<close>; each defaults to \<open>None\<close>.\<close>

record init_args =
  arg_model_obj :: "model option"
  arg_cleaned_data :: "(string, pyval) dict option"
  arg_eligible_value_default :: "string option"
  arg_eligible_values_list :: "string list option"
  arg_is_eligible_value :: "string option"
  arg_is_ineligible_value :: "string option"
  arg_eligible_display_label :: "string option"
  arg_ineligible_display_label :: "string option"
  arg_verbose :: "bool option"

definition no_args :: init_args where
  "no_args =
     \<lparr>arg_model_obj = None, arg_cleaned_data = None, arg_eligible_value_default = None,
      arg_eligible_values_list = None, arg_is_eligible_value = None,
      arg_is_ineligible_value = None, arg_eligible_display_label = None,
      arg_ineligible_display_label = None, arg_verbose = None\<rparr>"

subsection \<open>The names the evaluator itself uses\<close>




subsection \<open>Reading the evaluator\<close>

text \<open>\<open>getattr(self, fldattr)\<close>, for a name that is not \<open>evaluator_member\<close>.\<close>

definition getattr_self :: "evaluator \<Rightarrow> string \<Rightarrow> error + pyval" where
  "getattr_self e fldattr =
     (case fld_attrs e fldattr of None \<Rightarrow> Inl AttributeError | Some v \<Rightarrow> Inr v)"

text \<open>The property \<open>is_eligible\<close>.\<close>

definition is_eligible :: "evaluator \<Rightarrow> bool" where
  "is_eligible e = (if eligible e = is_eligible_value e then True else False)"


section \<open>Running a \<open>for\<close> loop whose body may raise\<close>

fun for_each :: "('a \<Rightarrow> 's \<Rightarrow> error + 's) \<Rightarrow> 'a list \<Rightarrow> 's \<Rightarrow> error + 's" where
  "for_each body [] s = Inr s"
| "for_each body (x # xs) s =
     (case body x s of Inl err \<Rightarrow> Inl err | Inr s' \<Rightarrow> for_each body xs s')"

section \<open>Required-field resolution: \<open>set_fld_attrs_on_self\<close>\<close>

fun dict_truthy :: "('k, 'v) dict option \<Rightarrow> bool" where
  "dict_truthy None = False"
| "dict_truthy (Some d) = (d \<noteq> [])"

text \<open>\<open>d.get(k)\<close>: \<open>None\<close> for an absent key.\<close>

definition dict_get :: "(string, pyval) dict \<Rightarrow> string \<Rightarrow> pyval" where
  "dict_get d k = (case map_of d k of None \<Rightarrow> PNone | Some v \<Rightarrow> v)"

text \<open>
  The value of one field. A Django model instance is always truthy, so
  \<open>if self.model_obj\<close> asks whether a record was supplied; \<open>if self.cleaned_data\<close> is
  false for \<open>None\<close> and for the empty mapping. Subscripting \<open>None\<close> raises
  \<open>TypeError\<close>, which the \<open>except KeyError\<close> clause does not catch.
\<close>

definition getattr_model :: "model \<Rightarrow> string \<Rightarrow> error + pyval" where
  "getattr_model m fldattr =
     (case attrs m fldattr of
        None \<Rightarrow> Inl (ScreeningEligibilityModelAttributeError fldattr)
      | Some v \<Rightarrow> Inr v)"

definition resolve_value :: "evaluator \<Rightarrow> string \<Rightarrow> error + pyval" where
  "resolve_value e fldattr =
     (case model_obj e of
        Some m \<Rightarrow>
          (case cleaned_data e of
             None \<Rightarrow> getattr_model m fldattr
           | Some cd \<Rightarrow> if cd \<noteq> [] then Inr (dict_get cd fldattr) else getattr_model m fldattr)
      | None \<Rightarrow>
          (case cleaned_data e of
             None \<Rightarrow> Inl TypeError
           | Some cd \<Rightarrow>
               (case map_of cd fldattr of
                  None \<Rightarrow> Inl (ScreeningEligibilityCleanedDataKeyError fldattr)
                | Some v \<Rightarrow> Inr v)))"

text \<open>
  The body of the loop: check the attribute, resolve, \<open>setattr(self, fldattr, value)\<close>;
  for a name that is not \<open>evaluator_member\<close>.
\<close>

definition set_fld_attr :: "screening_class \<Rightarrow> string \<Rightarrow> evaluator \<Rightarrow> error + evaluator" where
  "set_fld_attr cls fldattr e =
     (case fld_attrs e fldattr of
        None \<Rightarrow> Inl (ScreeningEligibilityAttributeError (class_name cls) fldattr)
      | Some _ \<Rightarrow>
          bind (resolve_value e fldattr)
            (\<lambda>v. Inr (e\<lparr>fld_attrs := (fld_attrs e)(fldattr \<mapsto> v)\<rparr>)))"

definition set_fld_attrs_on_self :: "screening_class \<Rightarrow> evaluator \<Rightarrow> error + evaluator" where
  "set_fld_attrs_on_self cls e =
     for_each (set_fld_attr cls) (map fst (get_required_fields cls)) e"

section \<open>Missing data: the property \<open>missing_data\<close>\<close>

text \<open>\<open>fc.missing_value and value == fc.missing_value\<close>.\<close>

fun is_missing_value :: "string option \<Rightarrow> pyval \<Rightarrow> bool" where
  "is_missing_value None v = False"
| "is_missing_value (Some s) v = (s \<noteq> [] \<and> py_eq v (PStr s))"

text \<open>The body of the loop that fills \<open>missing_responses\<close>.\<close>

fun missing_response ::
  "evaluator \<Rightarrow> string \<times> FC \<Rightarrow> (string, pyval) dict \<Rightarrow> error + (string, pyval) dict" where
  "missing_response e (fldattr, fc) missing_responses =
     (if \<not> ignore_if_missing fc then
        bind (getattr_self e fldattr)
          (\<lambda>v. if truthy v then
                  (if is_missing_value (missing_value fc) v
                   then Inr (AList.update fldattr PNone missing_responses)
                   else Inr missing_responses)
                else Inr (AList.update fldattr v missing_responses))
      else Inr missing_responses)"

definition not_answered :: "string \<Rightarrow> string" where
  "not_answered k = ''`'' @ title (replace_underscore k) @ ''` not answered''"

text \<open>Lines 240 to 253: the dictionary the property computes.\<close>

definition computed_missing_data ::
  "screening_class \<Rightarrow> evaluator \<Rightarrow> error + (string, string) dict" where
  "computed_missing_data cls e =
     bind (for_each (missing_response e) (get_required_fields cls) [])
       (\<lambda>missing_responses.
          Inr (map (\<lambda>(k, v). (k, not_answered k))
                 (filter (\<lambda>(k, v). \<not> truthy v) missing_responses)))"

text \<open>
  The property computes while \<open>_missing_data\<close> is empty and stores what it computed;
  it returns the dictionary and the evaluator with the stored copy.
\<close>

definition missing_data ::
  "screening_class \<Rightarrow> evaluator \<Rightarrow> error + ((string, string) dict \<times> evaluator)" where
  "missing_data cls e =
     (if missing_data_memo e = [] then
        bind (computed_missing_data cls e)
          (\<lambda>md. Inr (md, e\<lparr>missing_data_memo := md\<rparr>))
      else Inr (missing_data_memo e, e))"

section \<open>Verdict derivation: \<open>_assess_eligibility\<close>\<close>

text \<open>
  A leading underscore of a source name is written as a trailing prime:
  \<open>_assess_eligibility\<close> is \<open>assess_eligibility'\<close>, next to the hook
  \<open>assess_eligibility\<close> of the class.
\<close>

text \<open>Lines 166 to 168: the missing-data merge.\<close>

definition merge_missing_data :: "screening_class \<Rightarrow> evaluator \<Rightarrow> error + evaluator" where
  "merge_missing_data cls e =
     bind (missing_data cls e)
       (\<lambda>(md, e1).
          if md \<noteq> [] then
            (case reasons_ineligible e1 of
               None \<Rightarrow> Inl AttributeError
             | Some r \<Rightarrow>
                 bind (missing_data cls e1)
                   (\<lambda>(md', e2).
                      Inr (e2\<lparr>reasons_ineligible := Some (dict_update_all md' r),
                               eligible := eligible_value_default e2\<rparr>)))
          else Inr e1)"

text \<open>
  The message of a failing field: \<open>fc.msg\<close>, or the field name in title case; in
  verbose mode the value is appended.
\<close>

definition fc_message :: "FC \<Rightarrow> string \<Rightarrow> string" where
  "fc_message fc fldattr =
     (case msg fc of
        None \<Rightarrow> replace_underscore (title fldattr)
      | Some s \<Rightarrow> if s \<noteq> [] then s else replace_underscore (title fldattr))"

definition message :: "FC \<Rightarrow> string \<Rightarrow> evaluator \<Rightarrow> error + string" where
  "message fc fldattr e =
     (if verbose e = Some True
      then bind (getattr_self e fldattr)
             (\<lambda>v. Inr (fc_message fc fldattr @ ''. Got '' @ fldattr @ ''='' @ py_str v))
      else Inr (fc_message fc fldattr))"

text \<open>
  The condition of lines 175 to 178, and again of lines 181 to 184: a string must be
  equalled, a list, tuple or range must contain the value.
\<close>

fun fails_value :: "accepted \<Rightarrow> pyval \<Rightarrow> bool" where
  "fails_value (AStr s) v = (\<not> py_eq v (PStr s))"
| "fails_value (AList xs) v = (\<not> py_in v xs)"
| "fails_value (ATuple xs) v = (\<not> py_in v xs)"
| "fails_value (ARange start stop step) v = (\<not> in_range v start stop step)"

definition fails :: "FC \<Rightarrow> string \<Rightarrow> evaluator \<Rightarrow> error + bool" where
  "fails fc fldattr e =
     (case fc_value fc of
        None \<Rightarrow> Inr False
      | Some a \<Rightarrow> bind (getattr_self e fldattr) (\<lambda>v. Inr (fails_value a v)))"

text \<open>Lines 179 and 180, and again 185 and 186.\<close>

definition record_failure :: "string \<Rightarrow> string \<Rightarrow> evaluator \<Rightarrow> error + evaluator" where
  "record_failure fldattr m e =
     (case reasons_ineligible e of
        None \<Rightarrow> Inl AttributeError
      | Some r \<Rightarrow>
          Inr (e\<lparr>reasons_ineligible := Some (AList.update fldattr m r),
                  eligible := is_ineligible_value e\<rparr>))"

definition test_field :: "FC \<Rightarrow> string \<Rightarrow> string \<Rightarrow> evaluator \<Rightarrow> error + evaluator" where
  "test_field fc fldattr m e =
     bind (fails fc fldattr e) (\<lambda>b. if b then record_failure fldattr m e else Inr e)"

text \<open>Lines 171 to 186: the test is made twice.\<close>

fun check_field :: "string \<times> FC \<Rightarrow> evaluator \<Rightarrow> error + evaluator" where
  "check_field (fldattr, fc) e =
     (if accepted_truthy (fc_value fc) then
        bind (message fc fldattr e)
          (\<lambda>m. bind (test_field fc fldattr m e) (test_field fc fldattr m))
      else Inr e)"

text \<open>The body of the rule loop, from line 170.\<close>

definition rule_step :: "screening_class \<Rightarrow> string \<times> FC \<Rightarrow> evaluator \<Rightarrow> error + evaluator" where
  "rule_step cls item e =
     bind (missing_data cls e)
       (\<lambda>(md, e1). if map_of md (fst item) = None then check_field item e1 else Inr e1)"

definition rule_loop :: "screening_class \<Rightarrow> evaluator \<Rightarrow> error + evaluator" where
  "rule_loop cls e = for_each (rule_step cls) (get_required_fields cls) e"

text \<open>The state in which line 187 tests \<open>self.is_eligible\<close>.\<close>

definition base_assessment :: "screening_class \<Rightarrow> evaluator \<Rightarrow> error + evaluator" where
  "base_assessment cls e =
     bind (set_fld_attrs_on_self cls e)
       (\<lambda>e1. bind (merge_missing_data cls (e1\<lparr>eligible := is_eligible_value e1\<rparr>))
                (rule_loop cls))"

definition assess_eligibility' :: "screening_class \<Rightarrow> evaluator \<Rightarrow> error + evaluator" where
  "assess_eligibility' cls e =
     bind (base_assessment cls e)
       (\<lambda>e3. if is_eligible e3 then assess_eligibility cls e3 else Inr e3)"

section \<open>The record side effect: \<open>_set_fld_attrs_on_model\<close>\<close>

text \<open>\<open>"|".join(values) or None\<close>.\<close>

definition joined_or_none :: "string list \<Rightarrow> pyval" where
  "joined_or_none values = (let s = join ''|'' values in if s \<noteq> [] then PStr s else PNone)"

definition set_fld_attrs_on_model' :: "screening_class \<Rightarrow> evaluator \<Rightarrow> error + evaluator" where
  "set_fld_attrs_on_model' cls e =
     (case model_obj e of
        None \<Rightarrow> Inl AttributeError
      | Some m \<Rightarrow>
          (case reasons_ineligible e of
             None \<Rightarrow> Inl AttributeError
           | Some r \<Rightarrow>
               let m1 = setattr_model (reasons_ineligible_fld_name cls)
                          (joined_or_none (map snd r)) m;
                   m2 = setattr_model (eligible_fld_name cls) (PStr (eligible e)) m1
               in set_fld_attrs_on_model cls (e\<lparr>model_obj := Some m2\<rparr>)))"

section \<open>Construction: \<open>__init__\<close>\<close>

text \<open>\<open>if arg: self.attr = arg\<close>, over the class attribute.\<close>

fun override :: "string option \<Rightarrow> string \<Rightarrow> string" where
  "override None d = d"
| "override (Some s) d = (if s \<noteq> [] then s else d)"

fun override_list :: "string list option \<Rightarrow> string list \<Rightarrow> string list" where
  "override_list None d = d"
| "override_list (Some l) d = (if l \<noteq> [] then l else d)"

text \<open>
  Lines 82 to 99. \<open>self.eligible\<close> is read from the class attribute before the
  argument overrides it.
\<close>

definition init_state :: "screening_class \<Rightarrow> init_args \<Rightarrow> evaluator" where
  "init_state cls a =
     \<lparr>missing_data_memo = [],
      verbose = arg_verbose a,
      cleaned_data = arg_cleaned_data a,
      eligible = cls_eligible_value_default cls,
      eligible_value_default =
        override (arg_eligible_value_default a) (cls_eligible_value_default cls),
      eligible_values_list =
        override_list (arg_eligible_values_list a) (cls_eligible_values_list cls),
      is_eligible_value = override (arg_is_eligible_value a) (cls_is_eligible_value cls),
      is_ineligible_value =
        override (arg_is_ineligible_value a) (cls_is_ineligible_value cls),
      eligible_display_label =
        override (arg_eligible_display_label a) (cls_eligible_display_label cls),
      ineligible_display_label =
        override (arg_ineligible_display_label a) (cls_ineligible_display_label cls),
      model_obj = arg_model_obj a,
      reasons_ineligible = Some [],
      fld_attrs = declared_attrs cls\<rparr>"

text \<open>Lines 101 to 127: the checks after the assessment, and the record side effect.\<close>

definition validate :: "screening_class \<Rightarrow> evaluator \<Rightarrow> error + evaluator" where
  "validate cls e =
     (if eligible e \<notin> set (eligible_values_list e) then Inl ScreeningEligibilityError
      else if eligible e = [] \<or> eligible e \<notin> set (eligible_values_list e)
              \<or> reasons_ineligible e = None
           then Inl ScreeningEligibilityError
      else if eligible e = is_eligible_value e \<and> dict_truthy (reasons_ineligible e)
           then Inl ScreeningEligibilityInvalidCombination
      else if eligible e \<noteq> is_eligible_value e \<and> \<not> dict_truthy (reasons_ineligible e)
           then Inl ScreeningEligibilityInvalidCombination
      else if model_obj e \<noteq> None then set_fld_attrs_on_model' cls e
      else Inr e)"

definition init :: "screening_class \<Rightarrow> init_args \<Rightarrow> error + evaluator" where
  "init cls a = bind (assess_eligibility' cls (init_state cls a)) (validate cls)"

section \<open>\<open>GenderEvaluator\<close>\<close>

text \<open>The constants \<open>MALE\<close> and \<open>FEMALE\<close> of \<open>edc_constants.constants\<close>.\<close>

definition MALE :: string where "MALE = ''M''"
definition FEMALE :: string where "FEMALE = ''F''"

record gender_evaluator =
  gender_eligible :: bool
  gender_reasons_ineligible :: "string list option"

text \<open>The class attribute \<open>eligible_gender\<close>.\<close>

definition eligible_gender :: "pyval list" where
  "eligible_gender = [PStr MALE, PStr FEMALE]"

definition GenderEvaluator :: "pyval \<Rightarrow> gender_evaluator" where
  "GenderEvaluator gender =
     (let s0 = \<lparr>gender_eligible = False, gender_reasons_ineligible = None\<rparr>;
          s1 = (if py_in gender eligible_gender then s0\<lparr>gender_eligible := True\<rparr> else s0)
      in if \<not> gender_eligible s1 then
           (let s2 = s1\<lparr>gender_reasons_ineligible := Some []\<rparr>
            in if \<not> py_in gender [PStr MALE, PStr FEMALE]
               then s2\<lparr>gender_reasons_ineligible :=
                         Some ([] @ [py_str gender @ '' is an invalid gender.''])\<rparr>
               else s2)
         else s1)"

section \<open>Notions used to state the properties\<close>

text \<open>Two evaluator states that agree on everything the assessment only reads.\<close>

definition same_settings :: "evaluator \<Rightarrow> evaluator \<Rightarrow> bool" where
  "same_settings e e' \<longleftrightarrow>
     verbose e' = verbose e \<and> cleaned_data e' = cleaned_data e
     \<and> eligible_value_default e' = eligible_value_default e
     \<and> eligible_values_list e' = eligible_values_list e
     \<and> is_eligible_value e' = is_eligible_value e
     \<and> is_ineligible_value e' = is_ineligible_value e
     \<and> eligible_display_label e' = eligible_display_label e
     \<and> ineligible_display_label e' = ineligible_display_label e
     \<and> model_obj e' = model_obj e"

text \<open>What resolution leaves behind: every listed field holds its resolved value, nothing else moved.\<close>

definition resolved_from :: "evaluator \<Rightarrow> string list \<Rightarrow> evaluator \<Rightarrow> bool" where
  "resolved_from e fs e' \<longleftrightarrow>
     same_settings e e' \<and> missing_data_memo e' = missing_data_memo e
     \<and> eligible e' = eligible e \<and> reasons_ineligible e' = reasons_ineligible e
     \<and> (\<forall>f \<in> set fs. \<exists>v. fld_attrs e' f = Some v \<and> resolve_value e f = Inr v)
     \<and> (\<forall>g. g \<notin> set fs \<longrightarrow> fld_attrs e' g = fld_attrs e g)"

text \<open>A value that lines 242 to 248 record as missing, for a given descriptor.\<close>

definition is_missing :: "FC \<Rightarrow> pyval \<Rightarrow> bool" where
  "is_missing fc v \<longleftrightarrow>
     \<not> ignore_if_missing fc \<and> (\<not> truthy v \<or> is_missing_value (missing_value fc) v)"

text \<open>The declared fields whose current value is missing.\<close>

definition missing_among :: "evaluator \<Rightarrow> (string, FC) dict \<Rightarrow> string set" where
  "missing_among e rf =
     {f. \<exists>fc v. (f, fc) \<in> set rf \<and> fld_attrs e f = Some v \<and> is_missing fc v}"

text \<open>The stored copy of the missing data, when there is one, is what the property computes.\<close>

definition memo_ok :: "screening_class \<Rightarrow> evaluator \<Rightarrow> bool" where
  "memo_ok cls e \<longleftrightarrow>
     missing_data_memo e = [] \<or> computed_missing_data cls e = Inr (missing_data_memo e)"

text \<open>A value that the rule loop fails: \<open>fc.value\<close> is truthy and the test of lines 175 to 178 holds.\<close>

definition fails_criterion :: "FC \<Rightarrow> pyval \<Rightarrow> bool" where
  "fails_criterion fc v \<longleftrightarrow>
     accepted_truthy (fc_value fc)
     \<and> (case fc_value fc of None \<Rightarrow> False | Some a \<Rightarrow> fails_value a v)"

text \<open>The message the rule loop records for a value.\<close>

definition failure_message :: "FC \<Rightarrow> string \<Rightarrow> bool option \<Rightarrow> pyval \<Rightarrow> string" where
  "failure_message fc fldattr vb v =
     (if vb = Some True
      then fc_message fc fldattr @ ''. Got '' @ fldattr @ ''='' @ py_str v
      else fc_message fc fldattr)"

text \<open>The state after lines 179 and 180.\<close>

definition failed :: "string \<Rightarrow> string \<Rightarrow> evaluator \<Rightarrow> evaluator" where
  "failed f m e =
     e\<lparr>reasons_ineligible :=
         Some (AList.update f m (case reasons_ineligible e of None \<Rightarrow> [] | Some r \<Rightarrow> r)),
       eligible := is_ineligible_value e\<rparr>"

text \<open>The state after lines 166 to 168.\<close>

definition merged :: "(string, string) dict \<Rightarrow> evaluator \<Rightarrow> evaluator" where
  "merged md e =
     (if md \<noteq> [] then
        e\<lparr>missing_data_memo := md,
          reasons_ineligible :=
            Some (dict_update_all md (case reasons_ineligible e of None \<Rightarrow> [] | Some r \<Rightarrow> r)),
          eligible := eligible_value_default e\<rparr>
      else e)"

text \<open>The state after one pass of the rule loop over a field whose value is \<open>v\<close>.\<close>

definition stepped ::
  "(string, string) dict \<Rightarrow> string \<Rightarrow> FC \<Rightarrow> pyval \<Rightarrow> evaluator \<Rightarrow> evaluator" where
  "stepped md f fc v t =
     (if map_of md f = None \<and> fails_criterion fc v
      then failed f (failure_message fc f (verbose t) v) (t\<lparr>missing_data_memo := md\<rparr>)
      else t\<lparr>missing_data_memo := md\<rparr>)"

text \<open>What holds of every state the rule loop passes through.\<close>

definition in_loop :: "evaluator \<Rightarrow> (string, string) dict \<Rightarrow> evaluator \<Rightarrow> bool" where
  "in_loop e md t \<longleftrightarrow>
     same_settings e t \<and> fld_attrs t = fld_attrs e \<and> reasons_ineligible t \<noteq> None
     \<and> (missing_data_memo t = md \<or> missing_data_memo t = [])"

text \<open>The state after line 165.\<close>

definition before_merge :: "evaluator \<Rightarrow> evaluator" where
  "before_merge e1 = e1\<lparr>eligible := is_eligible_value e1\<rparr>"

text \<open>
  A verdict and a reasons map that disagree, as lines 116 and 121 test it: the
  eligible token with reasons, or another verdict without.
\<close>

definition inconsistent :: "evaluator \<Rightarrow> bool" where
  "inconsistent e \<longleftrightarrow>
     (eligible e = is_eligible_value e \<and> dict_truthy (reasons_ineligible e))
     \<or> (eligible e \<noteq> is_eligible_value e \<and> \<not> dict_truthy (reasons_ineligible e))"

text \<open>A hook that leaves the verdict, the eligible token and the reasons as they are.\<close>

definition keeps_verdict :: "(evaluator \<Rightarrow> error + evaluator) \<Rightarrow> bool" where
  "keeps_verdict hook \<longleftrightarrow>
     (\<forall>e e'. hook e = Inr e' \<longrightarrow>
        eligible e' = eligible e \<and> is_eligible_value e' = is_eligible_value e
        \<and> reasons_ineligible e' = reasons_ineligible e)"

text \<open>The record after lines 196 to 201, for a reasons map \<open>r\<close>.\<close>

definition written :: "screening_class \<Rightarrow> evaluator \<Rightarrow> (string, string) dict \<Rightarrow> model \<Rightarrow> model" where
  "written cls e r m =
     m\<lparr>attrs := (attrs m)
            (reasons_ineligible_fld_name cls \<mapsto> joined_or_none (map snd r),
             eligible_fld_name cls \<mapsto> PStr (eligible e)),
       calls := calls m @
            [Setattr (reasons_ineligible_fld_name cls) (joined_or_none (map snd r)),
             Setattr (eligible_fld_name cls) (PStr (eligible e))]\<rparr>"



section \<open>The rule loop with a single test\<close>

text \<open>
  The specification reads the rule loop as making the test of lines 175 to 180 once
  for each field. These are the loop and the constructor read that way; everything
  else is shared with the code's.
\<close>

fun check_field_once :: "string \<times> FC \<Rightarrow> evaluator \<Rightarrow> error + evaluator" where
  "check_field_once (fldattr, fc) e =
     (if accepted_truthy (fc_value fc) then
        bind (message fc fldattr e) (\<lambda>m. test_field fc fldattr m e)
      else Inr e)"

definition rule_step_once ::
  "screening_class \<Rightarrow> string \<times> FC \<Rightarrow> evaluator \<Rightarrow> error + evaluator" where
  "rule_step_once cls item e =
     bind (missing_data cls e)
       (\<lambda>(md, e1). if map_of md (fst item) = None then check_field_once item e1 else Inr e1)"

definition rule_loop_once :: "screening_class \<Rightarrow> evaluator \<Rightarrow> error + evaluator" where
  "rule_loop_once cls e = for_each (rule_step_once cls) (get_required_fields cls) e"

definition base_assessment_once :: "screening_class \<Rightarrow> evaluator \<Rightarrow> error + evaluator" where
  "base_assessment_once cls e =
     bind (set_fld_attrs_on_self cls e)
       (\<lambda>e1. bind (merge_missing_data cls (e1\<lparr>eligible := is_eligible_value e1\<rparr>))
                (rule_loop_once cls))"

definition assess_eligibility_once' :: "screening_class \<Rightarrow> evaluator \<Rightarrow> error + evaluator" where
  "assess_eligibility_once' cls e =
     bind (base_assessment_once cls e)
       (\<lambda>e3. if is_eligible e3 then assess_eligibility cls e3 else Inr e3)"

definition init_once :: "screening_class \<Rightarrow> init_args \<Rightarrow> error + evaluator" where
  "init_once cls a = bind (assess_eligibility_once' cls (init_state cls a)) (validate cls)"

section \<open>Example screenings\<close>

text \<open>
  A screening of age alone: \<open>age_in_years\<close> must lie in \<open>range(18, 65)\<close>, and the
  class declares the attribute as \<open>None\<close>; and the form of a subject aged 70.
\<close>

definition AgeEligibility :: screening_class where
  "AgeEligibility =
     ScreeningEligibility
       \<lparr>class_name := ''AgeEligibility'',
        declared_attrs := [''age_in_years'' \<mapsto> PNone],
        get_required_fields :=
          [(''age_in_years'', FC_default\<lparr>fc_value := Some (ARange 18 65 1)\<rparr>)]\<rparr>"

definition aged_70 :: init_args where
  "aged_70 = no_args\<lparr>arg_cleaned_data := Some [(''age_in_years'', PInt 70)]\<rparr>"

text \<open>
  A stored record of a subject aged 30, and a construction from that record together
  with a form that holds no value at all (\<open>cleaned_data={}\<close>).
\<close>

definition record_aged_30 :: model where
  "record_aged_30 = \<lparr>attrs = [''age_in_years'' \<mapsto> PInt 30], calls = []\<rparr>"

definition empty_form :: init_args where
  "empty_form =
     no_args\<lparr>arg_model_obj := Some record_aged_30, arg_cleaned_data := Some []\<rparr>"

text \<open>
  A subclass whose hook \<open>assess_eligibility\<close> sets \<open>self.eligible = "MAYBE"\<close>, a value
  outside \<open>eligible_values_list\<close>, and adds no reason.
\<close>

definition maybe_hook :: "evaluator \<Rightarrow> error + evaluator" where
  "maybe_hook e = Inr (e\<lparr>eligible := ''MAYBE''\<rparr>)"

definition MaybeEligibility :: screening_class where
  "MaybeEligibility =
     ScreeningEligibility
       \<lparr>class_name := ''MaybeEligibility'', assess_eligibility := maybe_hook\<rparr>"

text \<open>
  A screening with one field that may be left out: \<open>pregnant\<close> must be \<open>NO\<close>, with
  \<open>ignore_if_missing=True\<close>; and a form that leaves it out (\<open>None\<close>).
\<close>

definition PregnancyEligibility :: screening_class where
  "PregnancyEligibility =
     ScreeningEligibility
       \<lparr>class_name := ''PregnancyEligibility'',
        declared_attrs := [''pregnant'' \<mapsto> PNone],
        get_required_fields :=
          [(''pregnant'',
            FC_default\<lparr>fc_value := Some (AStr NO), ignore_if_missing := True\<rparr>)]\<rparr>"

definition pregnant_left_out :: init_args where
  "pregnant_left_out = no_args\<lparr>arg_cleaned_data := Some [(''pregnant'', PNone)]\<rparr>"

text \<open>
  A form that leaves the age out, for an evaluator constructed with
  \<open>eligible_value_default=YES\<close>, so that the pending token is the eligible token.
\<close>

definition age_left_out_default_yes :: init_args where
  "age_left_out_default_yes =
     no_args\<lparr>arg_cleaned_data := Some [(''age_in_years'', PNone)],
             arg_eligible_value_default := Some YES\<rparr>"

text \<open>
  A subclass whose hook \<open>assess_eligibility\<close> finds the subject ineligible and records
  a reason whose text is empty; and a construction from the stored record alone.
\<close>

definition blank_reason_hook :: "evaluator \<Rightarrow> error + evaluator" where
  "blank_reason_hook e =
     Inr (e\<lparr>eligible := is_ineligible_value e,
            reasons_ineligible := Some [(''consent'', [])]\<rparr>)"

definition BlankReasonEligibility :: screening_class where
  "BlankReasonEligibility =
     ScreeningEligibility
       \<lparr>class_name := ''BlankReasonEligibility'', assess_eligibility := blank_reason_hook\<rparr>"

definition from_record :: init_args where
  "from_record = no_args\<lparr>arg_model_obj := Some record_aged_30\<rparr>"




section \<open>Basic facts\<close>

lemma bind_Inl [simp]: "bind (Inl err) f = Inl err"
  by (simp add: bind_def)

lemma bind_Inr [simp]: "bind (Inr x) f = f x"
  by (simp add: bind_def)

lemma bind_eq_Inr: "bind r f = Inr y \<longleftrightarrow> (\<exists>x. r = Inr x \<and> f x = Inr y)"
  by (cases r) simp_all


lemma for_each_cong:
  "(\<And>x s. x \<in> set xs \<Longrightarrow> f x s = g x s) \<Longrightarrow> for_each f xs s = for_each g xs s"
  by (induction xs arbitrary: s) (simp_all split: sum.splits)

lemma for_each_preserves:
  assumes run: "for_each body xs s = Inr s'" and init: "I s"
    and step: "\<And>x t t'. x \<in> set xs \<Longrightarrow> I t \<Longrightarrow> body x t = Inr t' \<Longrightarrow> I t'"
  shows "I s'"
  using run init step
proof (induction xs arbitrary: s)
  case Nil
  then show ?case by simp
next
  case (Cons x xs)
  from Cons.prems(1) obtain t where t: "body x s = Inr t" and rest: "for_each body xs t = Inr s'"
    by (cases "body x s") simp_all
  have "x \<in> set (x # xs)" by simp
  then have "I t" using Cons.prems(2) t by (rule Cons.prems(3))
  have "I t'" if "y \<in> set xs" "I u" "body y u = Inr t'" for y u t'
  proof -
    from that(1) have "y \<in> set (x # xs)" by simp
    then show ?thesis using that(2,3) by (rule Cons.prems(3))
  qed
  with rest \<open>I t\<close> show ?case by (rule Cons.IH)
qed

lemma for_each_returns:
  assumes init: "I s"
    and step: "\<And>x t. x \<in> set xs \<Longrightarrow> I t \<Longrightarrow> \<exists>t'. body x t = Inr t' \<and> I t'"
  shows "\<exists>s'. for_each body xs s = Inr s' \<and> I s'"
  using init step
proof (induction xs arbitrary: s)
  case Nil
  then show ?case by simp
next
  case (Cons x xs)
  have "x \<in> set (x # xs)" by simp
  then have "\<exists>t'. body x s = Inr t' \<and> I t'" using Cons.prems(1) by (rule Cons.prems(2))
  then obtain t where t: "body x s = Inr t" "I t" by (elim exE conjE)
  have "\<exists>t'. body y u = Inr t' \<and> I t'" if "y \<in> set xs" "I u" for y u
  proof -
    from that(1) have "y \<in> set (x # xs)" by simp
    then show ?thesis using that(2) by (rule Cons.prems(2))
  qed
  with t(2) have "\<exists>s'. for_each body xs t = Inr s' \<and> I s'" by (rule Cons.IH)
  with t(1) show ?case by simp
qed

subsection \<open>Resolution\<close>

lemma same_settings_refl [simp]: "same_settings e e"
  by (simp add: same_settings_def)

lemma same_settings_trans: "same_settings a b \<Longrightarrow> same_settings b c \<Longrightarrow> same_settings a c"
  by (simp add: same_settings_def)

lemma resolve_value_cong:
  "model_obj e' = model_obj e \<Longrightarrow> cleaned_data e' = cleaned_data e
   \<Longrightarrow> resolve_value e' f = resolve_value e f"
  by (simp add: resolve_value_def cong: option.case_cong)

lemma set_fld_attr_Inr:
  "set_fld_attr cls f e = Inr e' \<longleftrightarrow>
     (\<exists>v. fld_attrs e f \<noteq> None \<and> resolve_value e f = Inr v
          \<and> e' = e\<lparr>fld_attrs := (fld_attrs e)(f \<mapsto> v)\<rparr>)"
  by (auto simp: set_fld_attr_def bind_eq_Inr split: option.splits)

lemma set_fld_attrs_resolved:
  "for_each (set_fld_attr cls) fs e = Inr e' \<Longrightarrow> resolved_from e fs e'"
proof (induction fs arbitrary: e)
  case Nil
  then show ?case by (simp add: resolved_from_def)
next
  case (Cons f fs)
  from Cons.prems obtain e1 where step: "set_fld_attr cls f e = Inr e1"
    and rest: "for_each (set_fld_attr cls) fs e1 = Inr e'"
    by (auto split: sum.splits)
  from step obtain v where v: "fld_attrs e f \<noteq> None" "resolve_value e f = Inr v"
    and e1: "e1 = e\<lparr>fld_attrs := (fld_attrs e)(f \<mapsto> v)\<rparr>"
    unfolding set_fld_attr_Inr by blast
  have s1: "same_settings e e1" "missing_data_memo e1 = missing_data_memo e"
    "eligible e1 = eligible e" "reasons_ineligible e1 = reasons_ineligible e"
    "fld_attrs e1 = (fld_attrs e)(f \<mapsto> v)"
    by (simp_all add: e1 same_settings_def)
  have r1: "resolve_value e1 g = resolve_value e g" for g
    using s1(1) by (intro resolve_value_cong) (simp_all add: same_settings_def)
  from Cons.IH [OF rest] have ih: "resolved_from e1 fs e'" .
  have "\<exists>w. fld_attrs e' g = Some w \<and> resolve_value e g = Inr w"
    if "g \<in> set (f # fs)" for g
  proof (cases "g \<in> set fs")
    case True
    with ih r1 show ?thesis by (simp add: resolved_from_def)
  next
    case False
    with that have "g = f" by simp
    with False ih s1(5) v show ?thesis by (simp add: resolved_from_def)
  qed
  moreover have "fld_attrs e' g = fld_attrs e g" if "g \<notin> set (f # fs)" for g
    using that ih s1(5) by (simp add: resolved_from_def)
  moreover have "same_settings e e'"
    using s1(1) ih same_settings_trans by (auto simp: resolved_from_def)
  ultimately show ?case
    using ih s1(2,3,4) unfolding resolved_from_def by simp
qed

subsection \<open>Missing data\<close>

lemma missing_among_Nil [simp]: "missing_among e [] = {}"
  by (simp add: missing_among_def)





declare missing_response.simps [simp del]




lemma missing_responses_returns:
  "\<forall>(f, fc) \<in> set rf. \<not> ignore_if_missing fc \<longrightarrow> fld_attrs e f \<noteq> None
   \<Longrightarrow> \<exists>mr. for_each (missing_response e) rf acc = Inr mr"
proof (induction rf arbitrary: acc)
  case Nil
  then show ?case by simp
next
  case (Cons item rf)
  obtain f fc where item: "item = (f, fc)" by (cases item)
  from Cons.prems have "\<exists>mid. missing_response e (f, fc) acc = Inr mid"
    by (auto simp: item getattr_self_def missing_response.simps)
  then obtain mid where mid: "missing_response e (f, fc) acc = Inr mid" ..
  from Cons.prems have "\<forall>(f, fc) \<in> set rf. \<not> ignore_if_missing fc \<longrightarrow> fld_attrs e f \<noteq> None"
    by simp
  from Cons.IH [OF this, of mid] mid show ?case by (simp add: item)
qed

lemma missing_response_cong:
  "fld_attrs e' = fld_attrs e \<Longrightarrow> missing_response e' = missing_response e"
  by (intro ext) (auto simp: getattr_self_def missing_response.simps)

lemma computed_missing_data_cong:
  "fld_attrs e' = fld_attrs e \<Longrightarrow> computed_missing_data cls e' = computed_missing_data cls e"
  using missing_response_cong [of e' e] by (simp add: computed_missing_data_def)


subsection \<open>The memo\<close>

lemma missing_data_eq:
  assumes "memo_ok cls e" and "computed_missing_data cls e = Inr md"
  shows "missing_data cls e = Inr (md, e\<lparr>missing_data_memo := md\<rparr>)"
proof (cases "missing_data_memo e = []")
  case True
  with assms(2) show ?thesis by (simp add: missing_data_def)
next
  case False
  with assms have "missing_data_memo e = md" by (simp add: memo_ok_def)
  with False show ?thesis by (auto simp: missing_data_def)
qed

lemma missing_data_Inl:
  "missing_data_memo e = [] \<Longrightarrow> computed_missing_data cls e = Inl err
   \<Longrightarrow> missing_data cls e = Inl err"
  by (simp add: missing_data_def)

lemma memo_ok_set:
  "computed_missing_data cls e = Inr md \<Longrightarrow> fld_attrs t = fld_attrs e
   \<Longrightarrow> missing_data_memo t = md \<Longrightarrow> memo_ok cls t"
  using computed_missing_data_cong [of t e cls] by (simp add: memo_ok_def)

subsection \<open>One field of the rule loop\<close>

lemma message_eq:
  "fld_attrs e f = Some v \<Longrightarrow> message fc f e = Inr (failure_message fc f (verbose e) v)"
  by (simp add: message_def failure_message_def getattr_self_def)

lemma fails_eq:
  "fld_attrs e f = Some v \<Longrightarrow>
   fails fc f e = Inr (case fc_value fc of None \<Rightarrow> False | Some a \<Rightarrow> fails_value a v)"
  by (simp add: fails_def getattr_self_def split: option.splits)

lemma record_failure_eq:
  "reasons_ineligible e \<noteq> None \<Longrightarrow> record_failure f m e = Inr (failed f m e)"
  by (auto simp: record_failure_def failed_def)

lemma failed_failed: "failed f m (failed f m e) = failed f m e"
  by (simp add: failed_def)

lemma failed_simps [simp]:
  "fld_attrs (failed f m e) = fld_attrs e"
  "missing_data_memo (failed f m e) = missing_data_memo e"
  "reasons_ineligible (failed f m e) \<noteq> None"
  "\<exists>r. reasons_ineligible (failed f m e) = Some r"
  "eligible (failed f m e) = is_ineligible_value e"
  "same_settings e (failed f m e)"
  by (simp_all add: failed_def same_settings_def)

lemma test_field_eq:
  assumes "fld_attrs e f = Some v" and "reasons_ineligible e \<noteq> None"
  shows "test_field fc f m e =
     Inr (if (case fc_value fc of None \<Rightarrow> False | Some a \<Rightarrow> fails_value a v)
          then failed f m e else e)"
  using assms by (simp add: test_field_def fails_eq record_failure_eq)

lemma check_field_eq:
  assumes "fld_attrs e f = Some v" and "reasons_ineligible e \<noteq> None"
  shows "check_field (f, fc) e =
     Inr (if fails_criterion fc v then failed f (failure_message fc f (verbose e) v) e else e)"
proof (cases "fails_criterion fc v")
  case True
  then have a: "accepted_truthy (fc_value fc)"
    and b: "(case fc_value fc of None \<Rightarrow> False | Some a \<Rightarrow> fails_value a v)"
    by (simp_all add: fails_criterion_def)
  let ?m = "failure_message fc f (verbose e) v"
  have one: "test_field fc f ?m e = Inr (failed f ?m e)"
    using assms b by (simp add: test_field_eq)
  have two: "test_field fc f ?m (failed f ?m e) = Inr (failed f ?m e)"
    using assms b by (simp add: test_field_eq failed_failed)
  from a one two assms True show ?thesis by (simp add: message_eq)
next
  case False
  show ?thesis
  proof (cases "accepted_truthy (fc_value fc)")
    case True
    with False have b: "\<not> (case fc_value fc of None \<Rightarrow> False | Some a \<Rightarrow> fails_value a v)"
      by (simp add: fails_criterion_def)
    let ?m = "failure_message fc f (verbose e) v"
    have "test_field fc f ?m e = Inr e" using assms b by (simp add: test_field_eq)
    with True False assms show ?thesis by (simp add: message_eq)
  next
    case no: False
    with False show ?thesis by simp
  qed
qed

lemma rule_step_eq:
  assumes "memo_ok cls e" and "computed_missing_data cls e = Inr md"
  shows "rule_step cls (f, fc) e =
     (if map_of md f = None then check_field (f, fc) (e\<lparr>missing_data_memo := md\<rparr>)
      else Inr (e\<lparr>missing_data_memo := md\<rparr>))"
  using missing_data_eq [OF assms] by (simp add: rule_step_def)

subsection \<open>The merge and the loop\<close>

lemma memo_same: "missing_data_memo e = md \<Longrightarrow> e\<lparr>missing_data_memo := md\<rparr> = e"
  by (cases e) simp

lemma merge_missing_data_eq:
  assumes memo: "missing_data_memo e = []" and md: "computed_missing_data cls e = Inr md"
    and r: "reasons_ineligible e \<noteq> None"
  shows "merge_missing_data cls e = Inr (merged md e)"
proof -
  have ok: "memo_ok cls e" using memo by (simp add: memo_ok_def)
  define e1 where "e1 = e\<lparr>missing_data_memo := md\<rparr>"
  have first: "missing_data cls e = Inr (md, e1)"
    using missing_data_eq [OF ok md] by (simp add: e1_def)
  show ?thesis
  proof (cases "md = []")
    case True
    with memo have "e1 = e" by (simp add: e1_def memo_same)
    with first True show ?thesis by (simp add: merge_missing_data_def merged_def)
  next
    case False
    have "missing_data_memo e1 = md" by (simp add: e1_def)
    with False have second: "missing_data cls e1 = Inr (md, e1)"
      by (simp add: missing_data_def)
    from r obtain rs where rs: "reasons_ineligible e = Some rs" by auto
    then have rs1: "reasons_ineligible e1 = Some rs" by (simp add: e1_def)
    from False first second rs1 have
      "merge_missing_data cls e =
         Inr (e1\<lparr>reasons_ineligible := Some (dict_update_all md rs),
                 eligible := eligible_value_default e1\<rparr>)"
      by (simp add: merge_missing_data_def)
    also have "e1\<lparr>reasons_ineligible := Some (dict_update_all md rs),
                 eligible := eligible_value_default e1\<rparr> = merged md e"
      using False rs by (simp add: merged_def e1_def)
    finally show ?thesis .
  qed
qed

lemma merged_simps [simp]:
  "fld_attrs (merged md e) = fld_attrs e"
  "same_settings e (merged md e)"
  "reasons_ineligible e \<noteq> None \<Longrightarrow> reasons_ineligible (merged md e) \<noteq> None"
  "reasons_ineligible e = Some r \<Longrightarrow> \<exists>r'. reasons_ineligible (merged md e) = Some r'"
  "missing_data_memo e = [] \<Longrightarrow> missing_data_memo (merged md e) = md"
  "md \<noteq> [] \<Longrightarrow> eligible (merged md e) = eligible_value_default e"
  "merged [] e = e"
  by (auto simp: merged_def same_settings_def)

lemma in_loop_memo_ok:
  "computed_missing_data cls e = Inr md \<Longrightarrow> in_loop e md t \<Longrightarrow> memo_ok cls t"
  using computed_missing_data_cong [of t e cls] by (auto simp: in_loop_def memo_ok_def)

lemma rule_step_in_loop:
  assumes md: "computed_missing_data cls e = Inr md" and t: "in_loop e md t"
    and v: "fld_attrs e f = Some v"
  shows "rule_step cls (f, fc) t = Inr (stepped md f fc v t)"
    and "in_loop e md (stepped md f fc v t)"
proof -
  have ok: "memo_ok cls t" using md t by (rule in_loop_memo_ok)
  have md': "computed_missing_data cls t = Inr md"
    using computed_missing_data_cong [of t e cls] md t by (simp add: in_loop_def)
  define t1 where "t1 = t\<lparr>missing_data_memo := md\<rparr>"
  have t1: "fld_attrs t1 f = Some v" "reasons_ineligible t1 \<noteq> None" "verbose t1 = verbose t"
    using t v by (simp_all add: t1_def in_loop_def)
  have "rule_step cls (f, fc) t = (if map_of md f = None then check_field (f, fc) t1 else Inr t1)"
    using rule_step_eq [OF ok md'] by (simp add: t1_def)
  also have "\<dots> = Inr (stepped md f fc v t)"
    using t1 by (simp add: check_field_eq stepped_def t1_def del: check_field.simps)
  finally show "rule_step cls (f, fc) t = Inr (stepped md f fc v t)" .
  have "in_loop e md t1" using t by (simp add: in_loop_def t1_def same_settings_def)
  then show "in_loop e md (stepped md f fc v t)"
    unfolding stepped_def t1_def [symmetric]
    using same_settings_trans [of e t1 "failed f (failure_message fc f (verbose t) v) t1"]
    by (simp add: in_loop_def)
qed

lemma rule_loop_returns:
  assumes md: "computed_missing_data cls e = Inr md"
    and attrs: "\<And>f fc. (f, fc) \<in> set items \<Longrightarrow> \<exists>v. fld_attrs e f = Some v"
    and t: "in_loop e md t" and P: "P t"
    and step: "\<And>f fc v u. (f, fc) \<in> set items \<Longrightarrow> fld_attrs e f = Some v
                 \<Longrightarrow> in_loop e md u \<Longrightarrow> P u \<Longrightarrow> P (stepped md f fc v u)"
  shows "\<exists>t'. for_each (rule_step cls) items t = Inr t' \<and> (in_loop e md t' \<and> P t')"
proof (rule for_each_returns [where I = "\<lambda>u. in_loop e md u \<and> P u"])
  from t P show "in_loop e md t \<and> P t" by (rule conjI)
next
  fix item u
  assume item: "item \<in> set items" and u: "in_loop e md u \<and> P u"
  obtain f fc where eq: "item = (f, fc)" by (cases item)
  from item eq have mem: "(f, fc) \<in> set items" by simp
  then have "\<exists>v. fld_attrs e f = Some v" by (rule attrs)
  then obtain v where v: "fld_attrs e f = Some v" ..
  from u have u1: "in_loop e md u" and u2: "P u" by (rule conjunct1, rule conjunct2)
  have a: "rule_step cls item u = Inr (stepped md f fc v u)"
    unfolding eq using md u1 v by (rule rule_step_in_loop(1))
  have b: "in_loop e md (stepped md f fc v u)"
    using md u1 v by (rule rule_step_in_loop(2))
  have c: "P (stepped md f fc v u)" using mem v u1 u2 by (rule step)
  from a b c show "\<exists>t'. rule_step cls item u = Inr t' \<and> (in_loop e md t' \<and> P t')"
    by (intro exI conjI)
qed

lemma eligible_upd_simps [simp]:
  "same_settings e (e\<lparr>eligible := x\<rparr>)"
  by (simp add: same_settings_def)

lemma set_fld_attrs_on_self_Inr:
  assumes "set_fld_attrs_on_self cls e0 = Inr e1"
  shows "resolved_from e0 (map fst (get_required_fields cls)) e1"
  using assms unfolding set_fld_attrs_on_self_def by (rule set_fld_attrs_resolved)

lemma resolved_attrs:
  assumes "resolved_from e0 (map fst rf) e1" and "(f, fc) \<in> set rf"
  shows "\<exists>v. fld_attrs e1 f = Some v \<and> resolve_value e0 f = Inr v"
proof -
  from assms(2) have "f \<in> set (map fst rf)" by force
  with assms(1) show ?thesis unfolding resolved_from_def by blast
qed

lemma before_merge_simps [simp]:
  "fld_attrs (before_merge e) = fld_attrs e"
  "missing_data_memo (before_merge e) = missing_data_memo e"
  "reasons_ineligible (before_merge e) = reasons_ineligible e"
  "eligible (before_merge e) = is_eligible_value e"
  "same_settings e (before_merge e)"
  by (simp_all add: before_merge_def same_settings_def)

lemma base_assessment_run:
  assumes res: "set_fld_attrs_on_self cls e0 = Inr e1"
    and memo0: "missing_data_memo e0 = []" and r0: "reasons_ineligible e0 \<noteq> None"
  obtains md where "computed_missing_data cls (before_merge e1) = Inr md"
    and "base_assessment cls e0 =
           for_each (rule_step cls) (get_required_fields cls) (merged md (before_merge e1))"
    and "in_loop (before_merge e1) md (merged md (before_merge e1))"
    and "\<And>f fc. (f, fc) \<in> set (get_required_fields cls)
           \<Longrightarrow> \<exists>v. fld_attrs (before_merge e1) f = Some v"
proof -
  let ?rf = "get_required_fields cls"
  let ?e2 = "before_merge e1"
  note rs = set_fld_attrs_on_self_Inr [OF res]
  have attrs: "\<exists>v. fld_attrs ?e2 f = Some v" if "(f, fc) \<in> set ?rf" for f fc
    using resolved_attrs [OF rs that] by auto
  from rs have memo1: "missing_data_memo ?e2 = []" and r1: "reasons_ineligible ?e2 \<noteq> None"
    using memo0 r0 by (simp_all add: resolved_from_def)
  have "\<forall>(f, fc) \<in> set ?rf. \<not> ignore_if_missing fc \<longrightarrow> fld_attrs ?e2 f \<noteq> None"
    using attrs by fastforce
  then have "\<exists>mr. for_each (missing_response ?e2) ?rf [] = Inr mr"
    by (rule missing_responses_returns)
  then obtain md where md: "computed_missing_data cls ?e2 = Inr md"
    by (auto simp: computed_missing_data_def)
  have merge: "merge_missing_data cls ?e2 = Inr (merged md ?e2)"
    using memo1 md r1 by (rule merge_missing_data_eq)
  have run: "base_assessment cls e0 = for_each (rule_step cls) ?rf (merged md ?e2)"
    using res merge by (simp add: base_assessment_def rule_loop_def before_merge_def)
  have loop: "in_loop ?e2 md (merged md ?e2)"
    using memo1 r1 by (auto simp: in_loop_def)
  from md run loop attrs show thesis by (rule that)
qed

subsection \<open>Testing twice\<close>

lemma fails_failed [simp]: "fails fc f (failed f' m e) = fails fc f e"
  by (simp add: fails_def getattr_self_def split: option.splits)

lemma record_failure_cases:
  "record_failure f m e = (if reasons_ineligible e = None then Inl AttributeError else Inr (failed f m e))"
  by (auto simp: record_failure_def failed_def)

lemma test_field_twice:
  "bind (test_field fc f m e) (test_field fc f m) = test_field fc f m e"
proof (cases "fails fc f e")
  case (Inl err)
  then show ?thesis by (simp add: test_field_def)
next
  case (Inr b)
  show ?thesis
  proof (cases "b \<and> reasons_ineligible e \<noteq> None")
    case True
    with Inr show ?thesis
      by (simp add: test_field_def record_failure_cases failed_failed)
  next
    case False
    with Inr show ?thesis
      by (auto simp: test_field_def record_failure_cases)
  qed
qed

lemma check_field_once_eq: "check_field_once = check_field"
proof (intro ext)
  fix item e
  show "check_field_once item e = check_field item e"
    by (cases item) (simp add: test_field_twice)
qed

lemma rule_step_once_eq: "rule_step_once cls = rule_step cls"
  by (intro ext) (simp add: rule_step_once_def rule_step_def check_field_once_eq cong: if_cong)

lemma rule_loop_once_eq: "rule_loop_once cls = rule_loop cls"
  by (intro ext) (simp add: rule_loop_once_def rule_loop_def rule_step_once_eq)

subsection \<open>Running the examples\<close>

lemmas string_defs = replace_underscore_def title_def is_cased_def upper_char_def
  lower_char_def ascii_lowercase_def ascii_uppercase_def not_answered_def fc_message_def

lemmas value_defs = py_eq_def py_in_def in_range_def range_nonempty_def dict_get_def

lemmas run_defs = init_def init_state_def validate_def assess_eligibility'_def
  base_assessment_def set_fld_attrs_on_self_def set_fld_attr_def resolve_value_def
  getattr_model_def merge_missing_data_def missing_data_def computed_missing_data_def
  missing_response.simps rule_loop_def rule_step_def message_def fails_def
  record_failure_def test_field_def getattr_self_def is_eligible_def
  set_fld_attrs_on_model'_def joined_or_none_def setattr_model_def dict_update_all_def
  ScreeningEligibility_def FC_default_def no_args_def YES_def NO_def TBD_def MALE_def
  FEMALE_def

lemma aged_70_run:
  "init AgeEligibility aged_70 =
     Inr ((init_state AgeEligibility aged_70)
            \<lparr>eligible := NO,
              reasons_ineligible := Some [(''age_in_years'', ''Age In Years'')],
              fld_attrs := [''age_in_years'' \<mapsto> PInt 70]\<rparr>)"
  by (simp add: AgeEligibility_def aged_70_def run_defs value_defs string_defs)

section \<open>The duplicated test\<close>

text \<open>
  C5. The rule loop that makes the test twice for each field and the loop that makes it
  once return the same result on every class and every evaluator state, and so do the
  constructors built on them: the same evaluator, with the same verdict and the same
  reasons, or the same error.
\<close>

theorem single_test_equivalent:
  "rule_loop_once cls e = rule_loop cls e \<and> init_once cls a = init cls a"
  by (simp add: rule_loop_once_eq init_once_def init_def assess_eligibility_once'_def
      assess_eligibility'_def base_assessment_once_def base_assessment_def)

theorem single_test_equivalent_witness:
  "init_once AgeEligibility aged_70 =
     Inr ((init_state AgeEligibility aged_70)
            \<lparr>eligible := NO,
              reasons_ineligible := Some [(''age_in_years'', ''Age In Years'')],
              fld_attrs := [''age_in_years'' \<mapsto> PInt 70]\<rparr>)"
  using single_test_equivalent [of AgeEligibility "init_state AgeEligibility aged_70" aged_70]
  by (simp add: aged_70_run)

section \<open>The gender evaluator\<close>

text \<open>
  C10. \<open>GenderEvaluator\<close> is eligible exactly when the gender is \<open>MALE\<close> or \<open>FEMALE\<close>,
  and then leaves \<open>reasons_ineligible\<close> as \<open>None\<close>; for every other gender it is not
  eligible and \<open>reasons_ineligible\<close> is the one-element list naming the gender. For
  the gender \<open>X\<close> the list is \<open>["X is an invalid gender."]\<close>.
\<close>

theorem gender_evaluator_verdict:
  "(gender_eligible (GenderEvaluator g) \<longleftrightarrow> g = PStr MALE \<or> g = PStr FEMALE)
   \<and> (g = PStr MALE \<or> g = PStr FEMALE \<longrightarrow>
        GenderEvaluator g = \<lparr>gender_eligible = True, gender_reasons_ineligible = None\<rparr>)
   \<and> (g \<noteq> PStr MALE \<and> g \<noteq> PStr FEMALE \<longrightarrow>
        GenderEvaluator g =
          \<lparr>gender_eligible = False,
           gender_reasons_ineligible = Some [py_str g @ '' is an invalid gender.'']\<rparr>)
   \<and> GenderEvaluator (PStr ''X'') =
        \<lparr>gender_eligible = False,
         gender_reasons_ineligible = Some [''X is an invalid gender.'']\<rparr>"
proof -
  have mem: "py_in g eligible_gender \<longleftrightarrow> g = PStr MALE \<or> g = PStr FEMALE"
    by (cases g) (auto simp: py_in_def py_eq_def eligible_gender_def)
  have mem': "py_in g [PStr MALE, PStr FEMALE] \<longleftrightarrow> g = PStr MALE \<or> g = PStr FEMALE"
    using mem by (simp add: eligible_gender_def)
  have x: "\<not> py_in (PStr ''X'') eligible_gender"
    by (simp add: py_in_def py_eq_def eligible_gender_def MALE_def FEMALE_def)
  show ?thesis
    using x by (auto simp: GenderEvaluator_def mem mem' Let_def eligible_gender_def)
qed

theorem gender_evaluator_verdict_witness:
  "PStr ''Q'' \<noteq> PStr MALE \<and> PStr ''Q'' \<noteq> PStr FEMALE
   \<and> GenderEvaluator (PStr ''Q'') =
        \<lparr>gender_eligible = False,
         gender_reasons_ineligible = Some [''Q is an invalid gender.'']\<rparr>
   \<and> GenderEvaluator (PStr ''F'') =
        \<lparr>gender_eligible = True, gender_reasons_ineligible = None\<rparr>"
  using gender_evaluator_verdict [of "PStr ''Q''"] gender_evaluator_verdict [of "PStr ''F''"]
  by (simp add: MALE_def FEMALE_def)

section \<open>Resolving the required fields\<close>



lemma empty_form_run:
  "init AgeEligibility empty_form =
     Inr ((init_state AgeEligibility empty_form)
            \<lparr>eligible := YES,
              fld_attrs := [''age_in_years'' \<mapsto> PInt 30],
              model_obj :=
                Some \<lparr>attrs = [''age_in_years'' \<mapsto> PInt 30,
                               ''reasons_ineligible'' \<mapsto> PNone,
                               ''eligible'' \<mapsto> PStr YES],
                      calls = [Setattr ''reasons_ineligible'' PNone,
                               Setattr ''eligible'' (PStr YES)]\<rparr>\<rparr>)"
  by (simp add: AgeEligibility_def empty_form_def record_aged_30_def run_defs value_defs
      string_defs)






section \<open>A field that may be left out\<close>

lemma pregnant_left_out_run:
  "init PregnancyEligibility pregnant_left_out =
     Inr ((init_state PregnancyEligibility pregnant_left_out)
            \<lparr>eligible := NO,
              reasons_ineligible := Some [(''pregnant'', ''Pregnant'')],
              fld_attrs := [''pregnant'' \<mapsto> PNone]\<rparr>)"
  by (simp add: PregnancyEligibility_def pregnant_left_out_def run_defs value_defs string_defs)

text \<open>
  C8, on the code. The field \<open>pregnant\<close> is declared with \<open>FC(value=NO,
  ignore_if_missing=True)\<close> and the form leaves it out. It is not counted as missing
  data, and no other field is declared; but the rule loop still tests it, \<open>None\<close> is
  not \<open>NO\<close>, and the verdict is the ineligible token with the reason \<open>Pregnant\<close>.
\<close>

theorem ignore_if_missing_left_out_ineligible:
  "computed_missing_data PregnancyEligibility
     ((init_state PregnancyEligibility pregnant_left_out)
        \<lparr>fld_attrs := [''pregnant'' \<mapsto> PNone]\<rparr>) = Inr []
   \<and> init PregnancyEligibility pregnant_left_out =
       Inr ((init_state PregnancyEligibility pregnant_left_out)
              \<lparr>eligible := NO,
                reasons_ineligible := Some [(''pregnant'', ''Pregnant'')],
                fld_attrs := [''pregnant'' \<mapsto> PNone]\<rparr>)"
  by (simp add: pregnant_left_out_run)
     (simp add: PregnancyEligibility_def computed_missing_data_def missing_response.simps
       ScreeningEligibility_def FC_default_def)

section \<open>Verdict and reasons agree\<close>

lemma validate_Inr:
  assumes "validate cls e' = Inr e"
  shows "eligible e' \<in> set (eligible_values_list e')" and "eligible e' \<noteq> []"
    and "reasons_ineligible e' \<noteq> None" and "\<not> inconsistent e'"
    and "model_obj e' = None \<Longrightarrow> e = e'"
    and "model_obj e' \<noteq> None \<Longrightarrow> set_fld_attrs_on_model' cls e' = Inr e"
  using assms by (auto simp: validate_def inconsistent_def split: if_splits)

lemma validate_inconsistent:
  assumes "inconsistent e'"
  shows "validate cls e' =
     (if eligible e' \<in> set (eligible_values_list e') \<and> eligible e' \<noteq> []
         \<and> reasons_ineligible e' \<noteq> None
      then Inl ScreeningEligibilityInvalidCombination else Inl ScreeningEligibilityError)"
  using assms by (auto simp: validate_def inconsistent_def)

lemma set_fld_attrs_on_model'_keeps:
  assumes "keeps_verdict (set_fld_attrs_on_model cls)"
    and "set_fld_attrs_on_model' cls e' = Inr e"
  shows "eligible e = eligible e' \<and> is_eligible_value e = is_eligible_value e'
         \<and> reasons_ineligible e = reasons_ineligible e'"
proof -
  from assms(2) obtain m2 where "set_fld_attrs_on_model cls (e'\<lparr>model_obj := Some m2\<rparr>) = Inr e"
    by (auto simp: set_fld_attrs_on_model'_def Let_def split: option.splits)
  with assms(1) show ?thesis unfolding keeps_verdict_def by fastforce
qed

lemma consistent_iff:
  assumes "\<not> inconsistent e" and "reasons_ineligible e \<noteq> None"
  shows "eligible e = is_eligible_value e \<longleftrightarrow> reasons_ineligible e = Some []"
  using assms by (cases "reasons_ineligible e") (auto simp: inconsistent_def)


lemma maybe_run:
  "assess_eligibility' MaybeEligibility (init_state MaybeEligibility no_args) =
     Inr ((init_state MaybeEligibility no_args)\<lparr>eligible := ''MAYBE''\<rparr>)"
  "init MaybeEligibility no_args = Inl ScreeningEligibilityError"
  by (simp_all add: MaybeEligibility_def maybe_hook_def run_defs)

lemma age_left_out_run:
  "assess_eligibility' AgeEligibility (init_state AgeEligibility age_left_out_default_yes) =
     Inr ((init_state AgeEligibility age_left_out_default_yes)
            \<lparr>missing_data_memo := [(''age_in_years'', ''`Age In Years` not answered'')],
              eligible := YES,
              reasons_ineligible := Some [(''age_in_years'', ''`Age In Years` not answered'')],
              fld_attrs := [''age_in_years'' \<mapsto> PNone]\<rparr>)"
  by (simp add: AgeEligibility_def age_left_out_default_yes_def run_defs value_defs
      string_defs)

text \<open>
  C1, as the code has it. When construction completes (with a hook
  \<open>set_fld_attrs_on_model\<close> that leaves verdict and reasons alone), the verdict is the
  eligible token exactly when the reasons map is empty. When the assessment, hook
  included, ends with the eligible token and reasons, or with another verdict and no
  reasons, construction raises: \<open>ScreeningEligibilityInvalidCombination\<close> when the
  verdict is a non-empty member of \<open>eligible_values_list\<close> and the reasons are not
  \<open>None\<close>, and \<open>ScreeningEligibilityError\<close> otherwise, because that check comes first.
\<close>

theorem verdict_reasons_consistency:
  "(\<forall>e. init cls a = Inr e \<and> keeps_verdict (set_fld_attrs_on_model cls) \<longrightarrow>
        (eligible e = is_eligible_value e \<longleftrightarrow> reasons_ineligible e = Some []))
   \<and> (\<forall>e'. assess_eligibility' cls (init_state cls a) = Inr e' \<and> inconsistent e' \<longrightarrow>
        init cls a =
          (if eligible e' \<in> set (eligible_values_list e') \<and> eligible e' \<noteq> []
              \<and> reasons_ineligible e' \<noteq> None
           then Inl ScreeningEligibilityInvalidCombination
           else Inl ScreeningEligibilityError))"
proof (intro conjI allI impI)
  fix e
  assume a: "init cls a = Inr e \<and> keeps_verdict (set_fld_attrs_on_model cls)"
  then obtain e' where run: "assess_eligibility' cls (init_state cls a) = Inr e'"
    and v: "validate cls e' = Inr e"
    by (auto simp: init_def bind_eq_Inr)
  note facts = validate_Inr [OF v]
  have same: "eligible e = eligible e' \<and> is_eligible_value e = is_eligible_value e'
         \<and> reasons_ineligible e = reasons_ineligible e'"
  proof (cases "model_obj e' = None")
    case True
    with facts(5) show ?thesis by simp
  next
    case False
    with facts(6) have "set_fld_attrs_on_model' cls e' = Inr e" by simp
    with a show ?thesis using set_fld_attrs_on_model'_keeps by blast
  qed
  from facts(4,3) have "eligible e' = is_eligible_value e' \<longleftrightarrow> reasons_ineligible e' = Some []"
    by (rule consistent_iff)
  with same show "eligible e = is_eligible_value e \<longleftrightarrow> reasons_ineligible e = Some []"
    by simp
next
  fix e'
  assume "assess_eligibility' cls (init_state cls a) = Inr e' \<and> inconsistent e'"
  then show "init cls a =
          (if eligible e' \<in> set (eligible_values_list e') \<and> eligible e' \<noteq> []
              \<and> reasons_ineligible e' \<noteq> None
           then Inl ScreeningEligibilityInvalidCombination
           else Inl ScreeningEligibilityError)"
    by (simp add: init_def validate_inconsistent)
qed

theorem verdict_reasons_consistency_witness:
  "init AgeEligibility aged_70 =
     Inr ((init_state AgeEligibility aged_70)
            \<lparr>eligible := NO,
              reasons_ineligible := Some [(''age_in_years'', ''Age In Years'')],
              fld_attrs := [''age_in_years'' \<mapsto> PInt 70]\<rparr>)
   \<and> keeps_verdict (set_fld_attrs_on_model AgeEligibility)
   \<and> NO \<noteq> is_eligible_value (init_state AgeEligibility aged_70)
   \<and> inconsistent
        ((init_state AgeEligibility age_left_out_default_yes)
            \<lparr>missing_data_memo := [(''age_in_years'', ''`Age In Years` not answered'')],
              eligible := YES,
              reasons_ineligible := Some [(''age_in_years'', ''`Age In Years` not answered'')],
              fld_attrs := [''age_in_years'' \<mapsto> PNone]\<rparr>)
   \<and> init AgeEligibility age_left_out_default_yes = Inl ScreeningEligibilityInvalidCombination"
proof -
  have k: "keeps_verdict (set_fld_attrs_on_model AgeEligibility)"
    by (simp add: keeps_verdict_def AgeEligibility_def ScreeningEligibility_def)
  have i: "inconsistent
        ((init_state AgeEligibility age_left_out_default_yes)
            \<lparr>missing_data_memo := [(''age_in_years'', ''`Age In Years` not answered'')],
              eligible := YES,
              reasons_ineligible := Some [(''age_in_years'', ''`Age In Years` not answered'')],
              fld_attrs := [''age_in_years'' \<mapsto> PNone]\<rparr>)"
    by (simp add: inconsistent_def init_state_def AgeEligibility_def ScreeningEligibility_def
        age_left_out_default_yes_def no_args_def)
  have n: "NO \<noteq> is_eligible_value (init_state AgeEligibility aged_70)"
    by (simp add: init_state_def AgeEligibility_def ScreeningEligibility_def aged_70_def
        no_args_def YES_def NO_def)
  from verdict_reasons_consistency [of AgeEligibility aged_70] k aged_70_run n
    verdict_reasons_consistency [of AgeEligibility age_left_out_default_yes] age_left_out_run i
  show ?thesis
    by (simp add: init_state_def AgeEligibility_def ScreeningEligibility_def
        age_left_out_default_yes_def no_args_def YES_def NO_def TBD_def)
qed

text \<open>
  C1 as stated fails for a hook that sets a verdict outside \<open>eligible_values_list\<close> and
  adds no reason: the assessment ends with a verdict that is not the eligible token
  and an empty reasons map, and construction raises \<open>ScreeningEligibilityError\<close>, not
  \<open>ScreeningEligibilityInvalidCombination\<close>.
\<close>

theorem invalid_verdict_counterexample:
  "assess_eligibility' MaybeEligibility (init_state MaybeEligibility no_args) =
     Inr ((init_state MaybeEligibility no_args)\<lparr>eligible := ''MAYBE''\<rparr>)
   \<and> eligible ((init_state MaybeEligibility no_args)\<lparr>eligible := ''MAYBE''\<rparr>)
       \<noteq> is_eligible_value ((init_state MaybeEligibility no_args)\<lparr>eligible := ''MAYBE''\<rparr>)
   \<and> reasons_ineligible ((init_state MaybeEligibility no_args)\<lparr>eligible := ''MAYBE''\<rparr>) = Some []
   \<and> init MaybeEligibility no_args = Inl ScreeningEligibilityError
   \<and> init MaybeEligibility no_args \<noteq> Inl ScreeningEligibilityInvalidCombination"
  by (simp add: maybe_run)
     (simp add: init_state_def MaybeEligibility_def ScreeningEligibility_def no_args_def YES_def)

section \<open>What the assessment leaves alone\<close>

lemma base_assessment_Inr:
  assumes run: "base_assessment cls e0 = Inr e3"
    and memo0: "missing_data_memo e0 = []" and r0: "reasons_ineligible e0 \<noteq> None"
  obtains e1 md where "set_fld_attrs_on_self cls e0 = Inr e1"
    and "computed_missing_data cls (before_merge e1) = Inr md"
    and "for_each (rule_step cls) (get_required_fields cls) (merged md (before_merge e1)) = Inr e3"
    and "in_loop (before_merge e1) md (merged md (before_merge e1))"
    and "in_loop (before_merge e1) md e3"
    and "\<And>f fc. (f, fc) \<in> set (get_required_fields cls)
           \<Longrightarrow> \<exists>v. fld_attrs (before_merge e1) f = Some v"
proof -
  from run obtain e1 where res: "set_fld_attrs_on_self cls e0 = Inr e1"
    by (auto simp: base_assessment_def bind_eq_Inr)
  show thesis
  proof (rule base_assessment_run [OF res memo0 r0])
    fix md
    assume md: "computed_missing_data cls (before_merge e1) = Inr md"
      and eq: "base_assessment cls e0 =
           for_each (rule_step cls) (get_required_fields cls) (merged md (before_merge e1))"
      and start: "in_loop (before_merge e1) md (merged md (before_merge e1))"
      and attrs: "\<And>f fc. (f, fc) \<in> set (get_required_fields cls)
           \<Longrightarrow> \<exists>v. fld_attrs (before_merge e1) f = Some v"
    from eq run have loop:
      "for_each (rule_step cls) (get_required_fields cls) (merged md (before_merge e1)) = Inr e3"
      by simp
    have "\<exists>t'. for_each (rule_step cls) (get_required_fields cls) (merged md (before_merge e1))
               = Inr t' \<and> (in_loop (before_merge e1) md t' \<and> True)"
      using md attrs start by (rule rule_loop_returns) simp_all
    with loop have fin: "in_loop (before_merge e1) md e3" by simp
    from res md loop start fin attrs show thesis by (rule that)
  qed
qed

lemma base_assessment_settings:
  assumes "base_assessment cls e0 = Inr e3"
    and "missing_data_memo e0 = []" and "reasons_ineligible e0 \<noteq> None"
  shows "same_settings e0 e3" and "reasons_ineligible e3 \<noteq> None"
proof -
  from assms obtain e1 md where res: "set_fld_attrs_on_self cls e0 = Inr e1"
    and fin: "in_loop (before_merge e1) md e3"
    by (rule base_assessment_Inr)
  from set_fld_attrs_on_self_Inr [OF res] have "same_settings e0 e1"
    by (simp add: resolved_from_def)
  moreover have "same_settings e1 (before_merge e1)" by simp
  moreover from fin have "same_settings (before_merge e1) e3" by (simp add: in_loop_def)
  ultimately show "same_settings e0 e3" by (blast intro: same_settings_trans)
  from fin show "reasons_ineligible e3 \<noteq> None" by (simp add: in_loop_def)
qed

lemma init_state_simps [simp]:
  "missing_data_memo (init_state cls a) = []"
  "reasons_ineligible (init_state cls a) = Some []"
  "model_obj (init_state cls a) = arg_model_obj a"
  "fld_attrs (init_state cls a) = declared_attrs cls"
  "verbose (init_state cls a) = arg_verbose a"
  "cleaned_data (init_state cls a) = arg_cleaned_data a"
  by (simp_all add: init_state_def)

section \<open>Writing to the record\<close>

lemma set_fld_attrs_on_model'_eq:
  "model_obj e = Some m \<Longrightarrow> reasons_ineligible e = Some r \<Longrightarrow>
   set_fld_attrs_on_model' cls e =
     set_fld_attrs_on_model cls (e\<lparr>model_obj := Some (written cls e r m)\<rparr>)"
  by (simp add: set_fld_attrs_on_model'_def written_def setattr_model_def Let_def)

lemma joined_or_none_cases:
  "joined_or_none [] = PNone"
  "join ''|'' xs \<noteq> [] \<Longrightarrow> joined_or_none xs = PStr (join ''|'' xs)"
  "join ''|'' xs = [] \<Longrightarrow> joined_or_none xs = PNone"
  by (simp_all add: joined_or_none_def)


lemma assess_default_hook:
  "assess_eligibility cls = Inr \<Longrightarrow> assess_eligibility' cls e = base_assessment cls e"
  by (cases "base_assessment cls e") (simp_all add: assess_eligibility'_def)

lemma written_simps:
  "calls (written cls e r m) = calls m @
     [Setattr (reasons_ineligible_fld_name cls) (joined_or_none (map snd r)),
      Setattr (eligible_fld_name cls) (PStr (eligible e))]"
  "attrs (written cls e r m) (eligible_fld_name cls) = Some (PStr (eligible e))"
  "k \<noteq> reasons_ineligible_fld_name cls \<Longrightarrow> k \<noteq> eligible_fld_name cls
     \<Longrightarrow> attrs (written cls e r m) k = attrs m k"
  "reasons_ineligible_fld_name cls \<noteq> eligible_fld_name cls
     \<Longrightarrow> attrs (written cls e r m) (reasons_ineligible_fld_name cls)
         = Some (joined_or_none (map snd r))"
  by (simp_all add: written_def)

lemma written_cong: "eligible e' = eligible e \<Longrightarrow> written cls e' r m = written cls e r m"
  by (simp add: written_def)

lemma init_default_hooks:
  assumes run: "init cls a = Inr e'"
    and h1: "assess_eligibility cls = Inr" and h2: "set_fld_attrs_on_model cls = Inr"
  shows "arg_model_obj a = None \<Longrightarrow> model_obj e' = None"
    and "arg_model_obj a = Some m
         \<Longrightarrow> \<exists>r. reasons_ineligible e' = Some r \<and> model_obj e' = Some (written cls e' r m)"
proof -
  from run obtain e2 where a2: "assess_eligibility' cls (init_state cls a) = Inr e2"
    and v: "validate cls e2 = Inr e'"
    by (auto simp: init_def bind_eq_Inr)
  from a2 h1 have b: "base_assessment cls (init_state cls a) = Inr e2"
    by (simp add: assess_default_hook)
  have "same_settings (init_state cls a) e2"
    using b by (rule base_assessment_settings) simp_all
  then have m2: "model_obj e2 = arg_model_obj a" by (simp add: same_settings_def)
  note facts = validate_Inr [OF v]
  show "model_obj e' = None" if "arg_model_obj a = None"
    using that m2 facts(5) by simp
  show "\<exists>r. reasons_ineligible e' = Some r \<and> model_obj e' = Some (written cls e' r m)"
    if "arg_model_obj a = Some m"
  proof -
    from that m2 have mo: "model_obj e2 = Some m" by simp
    from facts(3) obtain r where r: "reasons_ineligible e2 = Some r" by auto
    from mo facts(6) have "set_fld_attrs_on_model' cls e2 = Inr e'" by simp
    with mo r h2 have e': "e' = e2\<lparr>model_obj := Some (written cls e2 r m)\<rparr>"
      by (simp add: set_fld_attrs_on_model'_eq)
    then have "eligible e' = eligible e2" "reasons_ineligible e' = Some r"
      "model_obj e' = Some (written cls e2 r m)"
      using r by simp_all
    then show ?thesis using written_cong [of e' e2 cls r m] by simp
  qed
qed

text \<open>
  C9, as the code has it. \<open>_set_fld_attrs_on_model\<close> sets the record's reasons field to
  the reasons joined with \<open>|\<close>, or to \<open>None\<close> when that joined text is empty (as it is
  for an empty reasons map), then sets the record's eligible field to the verdict, then
  calls the hook \<open>set_fld_attrs_on_model\<close> on the result. With the default hooks, a
  construction that completes has done exactly that to the supplied record, and has no
  record when none was supplied. No other attribute of the record changes, and the
  calls made on the record are the two \<open>setattr\<close> calls: there is no \<open>save\<close>.
\<close>

theorem record_side_effect:
  "(\<forall>m r. model_obj e = Some m \<and> reasons_ineligible e = Some r \<longrightarrow>
        set_fld_attrs_on_model' cls e =
          set_fld_attrs_on_model cls (e\<lparr>model_obj := Some (written cls e r m)\<rparr>))
   \<and> (\<forall>e'. init cls a = Inr e' \<and> assess_eligibility cls = Inr
             \<and> set_fld_attrs_on_model cls = Inr \<longrightarrow>
          (arg_model_obj a = None \<longrightarrow> model_obj e' = None)
          \<and> (\<forall>m. arg_model_obj a = Some m \<longrightarrow>
                (\<exists>r. reasons_ineligible e' = Some r
                     \<and> model_obj e' = Some (written cls e' r m))))
   \<and> (\<forall>m r k. k \<noteq> reasons_ineligible_fld_name cls \<and> k \<noteq> eligible_fld_name cls \<longrightarrow>
          attrs (written cls e r m) k = attrs m k)
   \<and> (\<forall>m r. calls (written cls e r m) = calls m @
          [Setattr (reasons_ineligible_fld_name cls) (joined_or_none (map snd r)),
           Setattr (eligible_fld_name cls) (PStr (eligible e))])
   \<and> (\<forall>m r. attrs (written cls e r m) (eligible_fld_name cls) = Some (PStr (eligible e)))
   \<and> (\<forall>m r. reasons_ineligible_fld_name cls \<noteq> eligible_fld_name cls \<longrightarrow>
          attrs (written cls e r m) (reasons_ineligible_fld_name cls)
            = Some (joined_or_none (map snd r)))
   \<and> (\<forall>r :: (string, string) dict. joined_or_none (map snd r) =
          (if join ''|'' (map snd r) = [] then PNone else PStr (join ''|'' (map snd r))))
   \<and> joined_or_none (map snd ([] :: (string, string) dict)) = PNone"
proof (intro conjI allI impI)
  fix m r
  assume "model_obj e = Some m \<and> reasons_ineligible e = Some r"
  then show "set_fld_attrs_on_model' cls e =
          set_fld_attrs_on_model cls (e\<lparr>model_obj := Some (written cls e r m)\<rparr>)"
    by (simp add: set_fld_attrs_on_model'_eq)
next
  fix e'
  assume a: "init cls a = Inr e' \<and> assess_eligibility cls = Inr
             \<and> set_fld_attrs_on_model cls = Inr"
    and "arg_model_obj a = None"
  then show "model_obj e' = None" using init_default_hooks(1) [of cls a e'] by simp
next
  fix e' m
  assume a: "init cls a = Inr e' \<and> assess_eligibility cls = Inr
             \<and> set_fld_attrs_on_model cls = Inr"
    and "arg_model_obj a = Some m"
  then show "\<exists>r. reasons_ineligible e' = Some r \<and> model_obj e' = Some (written cls e' r m)"
    using init_default_hooks(2) [of cls a e' m] by simp
next
  fix m r k
  assume "k \<noteq> reasons_ineligible_fld_name cls \<and> k \<noteq> eligible_fld_name cls"
  then show "attrs (written cls e r m) k = attrs m k" by (simp add: written_simps)
next
  fix m r
  show "calls (written cls e r m) = calls m @
          [Setattr (reasons_ineligible_fld_name cls) (joined_or_none (map snd r)),
           Setattr (eligible_fld_name cls) (PStr (eligible e))]"
    by (rule written_simps)
next
  fix m r
  show "attrs (written cls e r m) (eligible_fld_name cls) = Some (PStr (eligible e))"
    by (rule written_simps)
next
  fix m r
  assume "reasons_ineligible_fld_name cls \<noteq> eligible_fld_name cls"
  then show "attrs (written cls e r m) (reasons_ineligible_fld_name cls)
            = Some (joined_or_none (map snd r))"
    by (rule written_simps)
next
  fix r :: "(string, string) dict"
  show "joined_or_none (map snd r) =
          (if join ''|'' (map snd r) = [] then PNone else PStr (join ''|'' (map snd r)))"
    by (simp add: joined_or_none_def)
next
  show "joined_or_none (map snd ([] :: (string, string) dict)) = PNone"
    by (simp add: joined_or_none_def)
qed


lemma blank_reason_run:
  "init BlankReasonEligibility from_record =
     Inr ((init_state BlankReasonEligibility from_record)
            \<lparr>eligible := NO,
              reasons_ineligible := Some [(''consent'', [])],
              model_obj :=
                Some \<lparr>attrs = [''age_in_years'' \<mapsto> PInt 30,
                               ''reasons_ineligible'' \<mapsto> PNone,
                               ''eligible'' \<mapsto> PStr NO],
                      calls = [Setattr ''reasons_ineligible'' PNone,
                               Setattr ''eligible'' (PStr NO)]\<rparr>\<rparr>)"
  by (simp add: BlankReasonEligibility_def blank_reason_hook_def from_record_def
      record_aged_30_def run_defs)

theorem record_side_effect_witness:
  "init AgeEligibility empty_form =
     Inr ((init_state AgeEligibility empty_form)
            \<lparr>eligible := YES,
              fld_attrs := [''age_in_years'' \<mapsto> PInt 30],
              model_obj :=
                Some \<lparr>attrs = [''age_in_years'' \<mapsto> PInt 30,
                               ''reasons_ineligible'' \<mapsto> PNone,
                               ''eligible'' \<mapsto> PStr YES],
                      calls = [Setattr ''reasons_ineligible'' PNone,
                               Setattr ''eligible'' (PStr YES)]\<rparr>\<rparr>)
   \<and> assess_eligibility AgeEligibility = Inr
   \<and> set_fld_attrs_on_model AgeEligibility = Inr
   \<and> arg_model_obj empty_form = Some record_aged_30
   \<and> written AgeEligibility
        ((init_state AgeEligibility empty_form)\<lparr>eligible := YES\<rparr>) [] record_aged_30 =
       \<lparr>attrs = [''age_in_years'' \<mapsto> PInt 30,
                 ''reasons_ineligible'' \<mapsto> PNone,
                 ''eligible'' \<mapsto> PStr YES],
        calls = [Setattr ''reasons_ineligible'' PNone, Setattr ''eligible'' (PStr YES)]\<rparr>"
proof -
  have h: "assess_eligibility AgeEligibility = Inr" "set_fld_attrs_on_model AgeEligibility = Inr"
    "arg_model_obj empty_form = Some record_aged_30"
    by (simp_all add: AgeEligibility_def ScreeningEligibility_def empty_form_def no_args_def)
  from record_side_effect [of "init_state AgeEligibility empty_form" AgeEligibility empty_form]
    empty_form_run h
  show ?thesis
    by (simp add: written_def init_state_def)
qed

text \<open>
  C9 as stated fails for a reasons map that is not empty and whose joined text is: a
  hook records one reason with an empty text, the map has one entry, and the record's
  \<open>reasons_ineligible\<close> becomes \<open>None\<close>, not the joined (empty) string.
\<close>

theorem blank_reason_counterexample:
  "init BlankReasonEligibility from_record =
     Inr ((init_state BlankReasonEligibility from_record)
            \<lparr>eligible := NO,
              reasons_ineligible := Some [(''consent'', [])],
              model_obj :=
                Some \<lparr>attrs = [''age_in_years'' \<mapsto> PInt 30,
                               ''reasons_ineligible'' \<mapsto> PNone,
                               ''eligible'' \<mapsto> PStr NO],
                      calls = [Setattr ''reasons_ineligible'' PNone,
                               Setattr ''eligible'' (PStr NO)]\<rparr>\<rparr>)
   \<and> [(''consent'', [])] \<noteq> ([] :: (string, string) dict)
   \<and> join ''|'' (map snd [(''consent'', [])]) = []
   \<and> [''age_in_years'' \<mapsto> PInt 30, ''reasons_ineligible'' \<mapsto> PNone,
       ''eligible'' \<mapsto> PStr NO] ''reasons_ineligible''
       \<noteq> Some (PStr (join ''|'' (map snd [(''consent'', [])])))"
  by (simp add: blank_reason_run)

section \<open>The assessment as a whole\<close>

subsection \<open>Resolution returns\<close>


subsection \<open>Merging dictionaries\<close>



subsection \<open>The hook is not read before line 187\<close>



subsection \<open>When nothing is missing and nothing fails\<close>









section \<open>Missing data\<close>

subsection \<open>Fields in the missing data are left alone\<close>














section \<open>The subclass hook\<close>

subsection \<open>Once not eligible, never eligible\<close>










section \<open>The rule loop\<close>

subsection \<open>A field that fails\<close>










end
